theory Spec2Isabelle
  imports Main "HOL-Library.Multiset"
begin

section \<open>Data model\<close>

text \<open>
  The rows that the controller of \<^verbatim>\<open>barcode_blastn/controllers/blastdb_controller.py\<close>
  reads and writes. A \<^verbatim>\<open>NuccoreSequence\<close> carries the fields of the dictionary that
  \<^verbatim>\<open>parse_gb_handle\<close> builds (the field \<^verbatim>\<open>definition\<close> is called \<open>definition_line\<close>
  here), its primary key and its owner. The eight \<^verbatim>\<open>taxon_*\<close> entries are
  \<^verbatim>\<open>None\<close> until the taxonomy has been resolved; \<open>taxid\<close> is the cross-reference
  to NCBI Taxonomy.
\<close>

record GenBankData =
  accession_number :: string
  version :: string
  definition_line :: string
  dna_sequence :: string
  organism :: string
  organelle :: string
  isolate :: string
  country :: string
  specimen_voucher :: string
  type_material :: string
  lat_lon :: string
  taxid :: string
  taxon_superkingdom :: "string option"
  taxon_kingdom :: "string option"
  taxon_phylum :: "string option"
  taxon_class :: "string option"
  taxon_order :: "string option"
  taxon_family :: "string option"
  taxon_genus :: "string option"
  taxon_species :: "string option"

record NuccoreSequence = GenBankData +
  seq_id :: string
  owner_database :: string

text \<open>
  A \<^verbatim>\<open>BlastDb\<close> object: primary key, library, the version triple, the lock, and the
  attributes that the history log reads (\<^verbatim>\<open>_change_reason\<close>, \<^verbatim>\<open>added\<close>,
  \<^verbatim>\<open>search_terms\<close>). \<^verbatim>\<open>_change_reason\<close> is not a field of the model: an object has it
  only once a caller has assigned it, and \<open>None\<close> stands for an object without it.
\<close>

record BlastDb =
  db_id :: string
  library :: string
  genbank_version :: int
  major_version :: int
  minor_version :: int
  locked :: bool
  change_reason :: "string option"
  added_log :: string
  search_terms :: string

text \<open>
  \<^verbatim>\<open>SequenceUpdateSummary\<close> declares its five lists in the class body, so they are
  attributes of the class: an instance has no list of its own, and
  \<^verbatim>\<open>summary.deleted.append(x)\<close> appends to the list of the class. The five lists are
  therefore part of the state of the process.
\<close>

record SequenceUpdateSummary =
  no_change :: "string list"
  accession_version_changed :: "string list"
  metadata_changed :: "string list"
  deleted :: "string list"
  added :: "string list"

definition class_body :: SequenceUpdateSummary where
  "class_body = \<lparr>no_change = [], accession_version_changed = [], metadata_changed = [],
     deleted = [], added = []\<rparr>"

text \<open>
  A request sent to NCBI: a search for a term, or an \<^verbatim>\<open>efetch\<close> with its keyword
  arguments, whose values are strings or integers.
\<close>

datatype pyval = PyStr string | PyInt int

datatype request = ESearch string | EFetch "(string \<times> pyval) list"

text \<open>
  The state of the process: the two tables, the lists of the class
  \<^verbatim>\<open>SequenceUpdateSummary\<close>, the FASTA files written per database, and the
  databases for which \<^verbatim>\<open>makeblastdb\<close> was run, the requests sent to NCBI so far,
  and the number of primary keys drawn so far.
\<close>

record world =
  blastdbs :: "BlastDb list"
  sequences :: "NuccoreSequence list"
  summary_class :: SequenceUpdateSummary
  fasta_files :: "string \<rightharpoonup> string"
  makeblastdb_runs :: "string list"
  requests :: "request list"
  uuid_count :: nat

text \<open>
  What NCBI answers to an \<^verbatim>\<open>efetch\<close>: an HTTP error with its code, any other
  failure of the call, a response that \<^verbatim>\<open>parse_gb_handle\<close> cannot read, or the
  records that \<^verbatim>\<open>parse_gb_handle\<close> returns for it.
\<close>

datatype efetch_answer = HTTPError int | Failure | Malformed | Records "GenBankData list"

text \<open>
  Everything outside the process. For \<^verbatim>\<open>save_blastdb\<close>: whether the database
  folder exists, whether \<^verbatim>\<open>shutil.rmtree\<close> succeeds, whether the remaining
  file-system calls (\<^verbatim>\<open>os.mkdir\<close>, \<^verbatim>\<open>os.remove\<close>, \<^verbatim>\<open>open\<close>, \<^verbatim>\<open>write\<close>)
  succeed, and the exit status that \<^verbatim>\<open>os.system\<close> returns for \<^verbatim>\<open>makeblastdb\<close>.
  For the fetch client: the answer to an \<^verbatim>\<open>esearch\<close> of a term (count, web
  environment and query key; \<open>None\<close> for any exception) and the answer to an
  \<^verbatim>\<open>efetch\<close>. \<open>uuid4\<close> gives the primary keys of new rows, and \<open>hash_order\<close> the
  order in which a set of strings is iterated.
\<close>

record environment =
  fishdb_path_exists :: bool
  rmtree_ok :: bool
  os_calls_ok :: bool
  makeblastdb_status :: int
  esearch :: "string \<Rightarrow> (int \<times> string \<times> string) option"
  efetch :: "(string \<times> pyval) list \<Rightarrow> efetch_answer"
  uuid4 :: "nat \<Rightarrow> string"
  hash_order :: "string list \<Rightarrow> string list"

text \<open>
  The exceptions. \<^verbatim>\<open>AccessionLimitExceeded\<close> stores what it is given as
  \<^verbatim>\<open>curr_accessions\<close>: a list of accessions (\<open>Inl\<close>) or a count (\<open>Inr\<close>), and the
  maximum. \<^verbatim>\<open>AttributeError\<close> is raised by reading an attribute that the object
  does not have, \<^verbatim>\<open>DataError\<close> by the database for a value that does not fit its
  column.
\<close>

datatype error =
    DatabaseLocked
  | AccessionsAlreadyExist "string list"
  | AccessionsNotFound "string list"
  | OSError
  | ValueError
  | TypeError
  | AttributeError
  | DataError
  | AccessionLimitExceeded "string list + int" int
  | GenBankConnectionError "string list" string
  | InsufficientAccessionData "string list" string
  | TaxonomyConnectionError "string list"

section \<open>Strings\<close>

fun join :: "string \<Rightarrow> string list \<Rightarrow> string" where
  "join sep [] = []"
| "join sep [x] = x"
| "join sep (x # y # ys) = x @ sep @ join sep (y # ys)"

definition newline :: string where
  "newline = [CHR 0x0A]"

section \<open>Diff: \<^verbatim>\<open>calculate_update_summary\<close>\<close>

definition fields_to_check :: "string list" where
  "fields_to_check = [''definition'', ''dna_sequence'', ''organism'', ''organelle'',
     ''isolate'', ''country'', ''specimen_voucher'', ''type_material'', ''lat_lon'']"

text \<open>\<^verbatim>\<open>getattr(seq, field)\<close>; \<open>None\<close> stands for the \<^verbatim>\<open>AttributeError\<close> of a name
  that is not a field.\<close>

definition getattr :: "NuccoreSequence \<Rightarrow> string \<Rightarrow> string option" where
  "getattr s field =
    (if field = ''definition'' then Some (definition_line s)
     else if field = ''dna_sequence'' then Some (dna_sequence s)
     else if field = ''organism'' then Some (organism s)
     else if field = ''organelle'' then Some (organelle s)
     else if field = ''isolate'' then Some (isolate s)
     else if field = ''country'' then Some (country s)
     else if field = ''specimen_voucher'' then Some (specimen_voucher s)
     else if field = ''type_material'' then Some (type_material s)
     else if field = ''lat_lon'' then Some (lat_lon s)
     else None)"

definition has_any_field_changed :: "NuccoreSequence \<Rightarrow> NuccoreSequence \<Rightarrow> bool" where
  "has_any_field_changed current_seq instance =
     fold (\<lambda>field changed.
             if \<not> changed \<and> getattr current_seq field \<noteq> getattr instance field
             then True else changed)
          fields_to_check False"

text \<open>\<^verbatim>\<open>NuccoreSequence.objects.filter(owner_database=db)\<close>.\<close>

definition sequences_of :: "world \<Rightarrow> BlastDb \<Rightarrow> NuccoreSequence list" where
  "sequences_of w db = filter (\<lambda>s. owner_database s = db_id db) (sequences w)"

text \<open>The first loop fills \<^verbatim>\<open>an_to_current\<close>.\<close>

definition index_current :: "NuccoreSequence list \<Rightarrow> (string \<rightharpoonup> NuccoreSequence)" where
  "index_current current_sequences =
     fold (\<lambda>seq d. d(accession_number seq \<mapsto> seq)) current_sequences Map.empty"

text \<open>The second loop fills \<^verbatim>\<open>an_to_last\<close> and appends to \<^verbatim>\<open>deleted\<close>.\<close>

definition scan_last ::
  "(string \<rightharpoonup> NuccoreSequence) \<Rightarrow> NuccoreSequence \<Rightarrow>
   (string \<rightharpoonup> NuccoreSequence) \<times> SequenceUpdateSummary \<Rightarrow>
   (string \<rightharpoonup> NuccoreSequence) \<times> SequenceUpdateSummary" where
  "scan_last an_to_current seq st =
     (case st of (an_to_last, summary) \<Rightarrow>
        (an_to_last(accession_number seq \<mapsto> seq),
         if an_to_current (accession_number seq) = None
         then summary\<lparr>deleted := deleted summary @ [accession_number seq]\<rparr>
         else summary))"

text \<open>The body of the third loop, over the current sequences.\<close>

definition classify ::
  "(string \<rightharpoonup> NuccoreSequence) \<Rightarrow> NuccoreSequence \<Rightarrow>
   SequenceUpdateSummary \<Rightarrow> SequenceUpdateSummary" where
  "classify an_to_last current_seq summary =
     (case an_to_last (accession_number current_seq) of
        None \<Rightarrow> summary\<lparr>added := added summary @ [accession_number current_seq]\<rparr>
      | Some instance \<Rightarrow>
          if version current_seq \<noteq> version instance
             \<or> dna_sequence current_seq \<noteq> dna_sequence instance
          then summary\<lparr>accession_version_changed :=
                 accession_version_changed summary @ [accession_number current_seq]\<rparr>
          else if has_any_field_changed current_seq instance
          then summary\<lparr>metadata_changed :=
                 metadata_changed summary @ [accession_number instance]\<rparr>
          else summary\<lparr>no_change := no_change summary @ [accession_number instance]\<rparr>)"

text \<open>
  The three loops on two lists of rows, started on the lists \<open>cls\<close> of the class.
\<close>

definition diff_rows ::
  "SequenceUpdateSummary \<Rightarrow> NuccoreSequence list \<Rightarrow> NuccoreSequence list \<Rightarrow>
   SequenceUpdateSummary" where
  "diff_rows cls last_sequences current_sequences =
     (let an_to_current = index_current current_sequences;
          (an_to_last, summary) =
             fold (scan_last an_to_current) last_sequences (Map.empty, cls)
      in fold (classify an_to_last) current_sequences summary)"

text \<open>
  \<^verbatim>\<open>calculate_update_summary(last, current)\<close>: the summary it returns is the class's
  lists, which stay as the call leaves them.
\<close>

definition calculate_update_summary ::
  "world \<Rightarrow> BlastDb \<Rightarrow> BlastDb \<Rightarrow> world \<times> SequenceUpdateSummary" where
  "calculate_update_summary w last_db current =
     (let summary = diff_rows (summary_class w) (sequences_of w last_db) (sequences_of w current)
      in (w\<lparr>summary_class := summary\<rparr>, summary))"

text \<open>The five buckets of a summary, one after the other.\<close>

definition buckets :: "SequenceUpdateSummary \<Rightarrow> string list" where
  "buckets s = added s @ deleted s @ accession_version_changed s @ metadata_changed s
     @ no_change s"

section \<open>Version policy and sealing: \<^verbatim>\<open>save_blastdb\<close>\<close>

text \<open>Lines 92 to 97: the triple assigned when a published version exists.\<close>

definition version_nums :: "BlastDb \<Rightarrow> SequenceUpdateSummary \<Rightarrow> int \<times> int \<times> int" where
  "version_nums lastPublished sequence_summary =
     (if length (deleted sequence_summary) > 0 \<or> length (added sequence_summary) > 0
         \<or> length (accession_version_changed sequence_summary) > 0
      then (genbank_version lastPublished + 1, 0, 0)
      else if length (metadata_changed sequence_summary) > 0
      then (genbank_version lastPublished, major_version lastPublished + 1, 0)
      else (genbank_version lastPublished, major_version lastPublished,
            minor_version lastPublished + 1))"

text \<open>
  The ordering of \<^verbatim>\<open>BlastDb.Meta\<close>: by genbank, major, then minor version.
\<close>

definition version_le :: "BlastDb \<Rightarrow> BlastDb \<Rightarrow> bool" where
  "version_le a b =
     (genbank_version a < genbank_version b
      \<or> (genbank_version a = genbank_version b
          \<and> (major_version a < major_version b
              \<or> (major_version a = major_version b \<and> minor_version a \<le> minor_version b))))"

text \<open>
  \<^verbatim>\<open>BlastDb.objects.latest(library)\<close>: the last locked row of the library in the
  ordering of the model; among rows of equal version, the later row of the table.
\<close>

definition latest :: "world \<Rightarrow> string \<Rightarrow> BlastDb option" where
  "latest w lib =
     fold (\<lambda>d best. case best of None \<Rightarrow> Some d
                     | Some b \<Rightarrow> if version_le b d then Some d else Some b)
          (filter (\<lambda>d. library d = lib \<and> locked d) (blastdbs w)) None"

text \<open>
  The three version fields are \<^verbatim>\<open>SmallIntegerField\<close>s: columns of 16 bits in the
  PostgreSQL database of \<^verbatim>\<open>settings.py\<close>.
\<close>

definition smallint :: "int \<Rightarrow> bool" where
  "smallint i = (- 32768 \<le> i \<and> i \<le> 32767)"

text \<open>
  \<^verbatim>\<open>obj.save()\<close>: the row with the key of \<open>obj\<close> is replaced, or \<open>obj\<close> is inserted.
  The database refuses a version number out of the range of its column, and the call
  raises \<^verbatim>\<open>DataError\<close>.
\<close>

definition obj_save :: "world \<Rightarrow> BlastDb \<Rightarrow> error + world" where
  "obj_save w obj =
     (if smallint (genbank_version obj) \<and> smallint (major_version obj)
         \<and> smallint (minor_version obj)
      then
        (if list_ex (\<lambda>d. db_id d = db_id obj) (blastdbs w)
         then Inr (w\<lparr>blastdbs := map (\<lambda>d. if db_id d = db_id obj then obj else d)
                                     (blastdbs w)\<rparr>)
         else Inr (w\<lparr>blastdbs := blastdbs w @ [obj]\<rparr>))
      else Inl DataError)"

definition fasta_text :: "NuccoreSequence list \<Rightarrow> string" where
  "fasta_text seqs = concat (map (\<lambda>x. ''>'' @ version x @ newline @ dna_sequence x @ newline) seqs)"

text \<open>
  \<^verbatim>\<open>save_blastdb(obj, perform_lock)\<close>. The result is the state of the process after
  the call, and either the object returned, or the exception raised together with the
  object as the call leaves it in memory. The function raises \<^verbatim>\<open>OSError\<close> for a
  failed \<^verbatim>\<open>rmtree\<close>, and the other file-system calls raise subclasses of
  \<^verbatim>\<open>OSError\<close> themselves; the value of \<^verbatim>\<open>os.system(command)\<close> is discarded. Lines
  136 to 139 assign the version and the lock; line 141 then reads
  \<^verbatim>\<open>obj._change_reason\<close>, which raises \<^verbatim>\<open>AttributeError\<close> on an object without it;
  \<^verbatim>\<open>obj.save()\<close> comes last.
\<close>

definition save_blastdb ::
  "environment \<Rightarrow> world \<Rightarrow> BlastDb \<Rightarrow> bool \<Rightarrow> world \<times> (error \<times> BlastDb + BlastDb)" where
  "save_blastdb env w obj perform_lock =
     (if perform_lock then
        (let (w1, nums) =
               (case latest w (library obj) of
                  None \<Rightarrow> (w, (1, 0, 0))
                | Some lastPublished \<Rightarrow>
                    (let (w', sequence_summary) = calculate_update_summary w lastPublished obj
                     in (w', version_nums lastPublished sequence_summary)))
         in if \<not> os_calls_ok env \<or> (fishdb_path_exists env \<and> \<not> rmtree_ok env)
            then (w1, Inl (OSError, obj))
            else
              (let w2 = w1\<lparr>fasta_files :=
                            (fasta_files w1)(db_id obj \<mapsto> fasta_text (sequences_of w1 obj))\<rparr>;
                   w3 = w2\<lparr>makeblastdb_runs := makeblastdb_runs w2 @ [db_id obj]\<rparr>;
                   obj1 = obj\<lparr>genbank_version := fst nums,
                              major_version := fst (snd nums),
                              minor_version := snd (snd nums),
                              locked := True\<rparr>
               in case change_reason obj1 of
                    None \<Rightarrow> (w3, Inl (AttributeError, obj1))
                  | Some reason \<Rightarrow>
                      (let obj' = obj1\<lparr>change_reason :=
                                    Some (join '', '' (''Locked database'' #
                                      (if length reason > 0 then [reason] else [])))\<rparr>
                       in case obj_save w3 obj' of
                            Inl e \<Rightarrow> (w3, Inl (e, obj'))
                          | Inr w4 \<Rightarrow> (w4, Inr obj'))))
      else (case obj_save w obj of
              Inl e \<Rightarrow> (w, Inl (e, obj))
            | Inr w' \<Rightarrow> (w', Inr obj)))"

section \<open>More strings\<close>

text \<open>\<^verbatim>\<open>str.upper\<close> and \<^verbatim>\<open>str.lower\<close> (and SQL \<^verbatim>\<open>UPPER\<close>) on the letters of ASCII.\<close>

definition upper_char :: "char \<Rightarrow> char" where
  "upper_char c =
     (if 97 \<le> (of_char c :: nat) \<and> (of_char c :: nat) \<le> 122
      then char_of ((of_char c :: nat) - 32) else c)"

definition lower_char :: "char \<Rightarrow> char" where
  "lower_char c =
     (if 65 \<le> (of_char c :: nat) \<and> (of_char c :: nat) \<le> 90
      then char_of ((of_char c :: nat) + 32) else c)"

definition upper :: "string \<Rightarrow> string" where
  "upper s = map upper_char s"

definition lower :: "string \<Rightarrow> string" where
  "lower s = map lower_char s"

text \<open>\<^verbatim>\<open>s.startswith(p)\<close> and \<^verbatim>\<open>p in s\<close> for strings.\<close>

definition startswith :: "string \<Rightarrow> string \<Rightarrow> bool" where
  "startswith s p = (take (length p) s = p)"

fun contains :: "string \<Rightarrow> string \<Rightarrow> bool" where
  "contains [] p = (p = [])"
| "contains (c # s) p = (startswith (c # s) p \<or> contains s p)"

text \<open>\<^verbatim>\<open>str.strip()\<close>: the characters for which \<^verbatim>\<open>str.isspace\<close> holds are dropped at
  both ends.\<close>

definition isspace :: "char \<Rightarrow> bool" where
  "isspace c = (let n = (of_char c :: nat)
                in (9 \<le> n \<and> n \<le> 13) \<or> (28 \<le> n \<and> n \<le> 32) \<or> n = 133 \<or> n = 160)"

definition strip :: "string \<Rightarrow> string" where
  "strip s = rev (dropWhile isspace (rev (dropWhile isspace s)))"

text \<open>\<^verbatim>\<open>s.split(sep)\<close> for a separator of one character.\<close>

fun split_at :: "char \<Rightarrow> string \<Rightarrow> string list" where
  "split_at sep [] = [[]]"
| "split_at sep (c # s) =
     (if c = sep then [] # split_at sep s
      else (case split_at sep s of [] \<Rightarrow> [[c]] | w # ws \<Rightarrow> (c # w) # ws))"

text \<open>\<^verbatim>\<open>str(n)\<close> for an integer.\<close>

definition digit :: "nat \<Rightarrow> char" where
  "digit k = char_of (of_char CHR ''0'' + k)"

function str_nat :: "nat \<Rightarrow> string" where
  "str_nat n =
     (if 9 < n then str_nat (n div 10) @ [digit (n mod 10)] else [digit n])"
  by pat_completeness auto
termination
  by (relation "measure (\<lambda>n. n)") auto

definition str_int :: "int \<Rightarrow> string" where
  "str_int i = (if 0 \<le> i then str_nat (nat i) else CHR ''-'' # str_nat (nat (- i)))"

section \<open>Filtering: \<^verbatim>\<open>filter_sequences_in_database\<close>\<close>

text \<open>
  \<^verbatim>\<open>append_change_reason\<close> reads the attribute with
  \<^verbatim>\<open>getattr(database, '_change_reason', '')\<close>, so an object without it counts as one
  with the empty reason.
\<close>

definition append_change_reason :: "BlastDb \<Rightarrow> string \<Rightarrow> BlastDb" where
  "append_change_reason database reason =
     (let change_reason' = (case change_reason database of None \<Rightarrow> '''' | Some r \<Rightarrow> r)
      in database\<lparr>change_reason :=
           Some (join '', '' (if length change_reason' > 0
                              then [change_reason', reason] else [reason]))\<rparr>)"

text \<open>
  The annotation \<^verbatim>\<open>ambiguous\<close>: the length of the upper-cased sequence minus its
  length with every \<^verbatim>\<open>N\<close> replaced by the empty string.
\<close>

definition ambiguous :: "string \<Rightarrow> int" where
  "ambiguous s =
     int (length (upper s)) - int (length (filter (\<lambda>c. c \<noteq> CHR ''N'') (upper s)))"

text \<open>
  The query \<^verbatim>\<open>violations\<close> as the function builds it, one \<^verbatim>\<open>|=\<close> at a time.
  \<^verbatim>\<open>require_taxonomy\<close> is a parameter of the function and is not read by it.
\<close>

definition violations ::
  "int \<Rightarrow> int \<Rightarrow> int \<Rightarrow> string list \<Rightarrow> bool \<Rightarrow> NuccoreSequence \<Rightarrow> bool" where
  "violations min_length max_length max_ambiguous_bases blacklist require_taxonomy =
     (let v0 = (\<lambda>r. accession_number r \<in> set blacklist \<or> version r \<in> set blacklist);
          v1 = (if min_length > -1
                then (\<lambda>r. v0 r \<or> int (length (dna_sequence r)) < min_length) else v0);
          v2 = (if max_length > -1
                then (\<lambda>r. v1 r \<or> int (length (dna_sequence r)) > max_length) else v1);
          v3 = (if max_ambiguous_bases > -1
                then (\<lambda>r. v2 r \<or> ambiguous (dna_sequence r) > max_ambiguous_bases) else v2)
      in v3)"

definition filter_change_reason :: "int \<Rightarrow> int \<Rightarrow> int \<Rightarrow> string list \<Rightarrow> string list" where
  "filter_change_reason min_length max_length max_ambiguous_bases blacklist =
     (if length blacklist > 0
      then [''Remove using blacklist '' @ join '', '' blacklist] else [])
     @ (if min_length > -1
        then [''Delete length < '' @ str_int min_length @ '' bp''] else [])
     @ (if max_length > -1
        then [''Delete length > '' @ str_int max_length @ '' bp''] else [])
     @ (if max_ambiguous_bases > -1
        then [''Delete if Ns > '' @ str_int max_ambiguous_bases @ '' bp''] else [])"

text \<open>
  \<^verbatim>\<open>filter_sequences_in_database\<close>. The rows of the database that the query selects
  are deleted, the criteria are appended to the change reason and the database is
  saved. The value returned is the query itself: \<^verbatim>\<open>delete()\<close> has cleared the rows
  it had read, so the caller who reads it gets the rows it selects in the table as the
  call leaves it.
\<close>

definition filter_sequences_in_database ::
  "world \<Rightarrow> BlastDb \<Rightarrow> int \<Rightarrow> int \<Rightarrow> int \<Rightarrow> string list \<Rightarrow> bool \<Rightarrow>
   world \<times> (error + NuccoreSequence list)" where
  "filter_sequences_in_database w database min_length max_length max_ambiguous_bases
       blacklist require_taxonomy =
     (let v = violations min_length max_length max_ambiguous_bases blacklist require_taxonomy;
          w' = w\<lparr>sequences :=
                   filter (\<lambda>s. \<not> (owner_database s = db_id database \<and> v s)) (sequences w)\<rparr>;
          database' = append_change_reason database
             (join newline
                (filter_change_reason min_length max_length max_ambiguous_bases blacklist))
      in case obj_save w' database' of
           Inl e \<Rightarrow> (w', Inl e)
         | Inr w'' \<Rightarrow> (w'', Inr (filter v (sequences_of w'' database))))"

section \<open>The fetch client: \<^verbatim>\<open>retrieve_gb\<close>\<close>

text \<open>
  \<^verbatim>\<open>list(set(xs))\<close>: one copy of every element of \<open>xs\<close>, in the order in which the
  set is iterated. That order follows the hashes of the strings and is given by the
  environment; an answer of the environment that is not such a list is replaced by
  \<open>remdups xs\<close>.
\<close>

definition list_set :: "environment \<Rightarrow> string list \<Rightarrow> string list" where
  "list_set env xs =
     (let ys = hash_order env xs
      in if distinct ys \<and> set ys = set xs then ys else remdups xs)"

definition MAX_ACCESSIONS :: int where
  "MAX_ACCESSIONS = 1500"

definition ACCESSIONS_PER_REQUEST :: nat where
  "ACCESSIONS_PER_REQUEST = 300"

text \<open>
  \<^verbatim>\<open>send_gb_request(accession_numbers, raise_if_missing, **kwargs)\<close>: one request to
  NCBI, added to the log of requests. No caller passes \<^verbatim>\<open>term\<close> among the keyword
  arguments, so the term of the exceptions is the default, the empty string.
\<close>

definition send_gb_request ::
  "environment \<Rightarrow> request list \<Rightarrow> string list \<Rightarrow> bool \<Rightarrow> (string \<times> pyval) list \<Rightarrow>
   request list \<times> (error + GenBankData list)" where
  "send_gb_request env log accession_numbers raise_if_missing kwargs =
     (let kwargs' = (if length accession_numbers > 0
                     then kwargs @ [(''id'', PyStr (join '','' accession_numbers))] else kwargs);
          log' = log @ [EFetch kwargs']
      in case efetch env kwargs' of
           HTTPError code \<Rightarrow>
             if code = 400 then (log', Inl (InsufficientAccessionData accession_numbers ''''))
             else (log', Inl (GenBankConnectionError accession_numbers ''''))
         | Failure \<Rightarrow> (log', Inl (GenBankConnectionError accession_numbers ''''))
         | Malformed \<Rightarrow> (log', Inl ValueError)
         | Records result \<Rightarrow>
             if raise_if_missing then
               (let successful_queries = map accession_number result @ map version result;
                    failed_queries =
                      filter (\<lambda>d. d \<notin> set successful_queries) accession_numbers
                in if length failed_queries > 0
                   then (log', Inl (InsufficientAccessionData failed_queries ''''))
                   else (log', Inr result))
             else (log', Inr result))"

text \<open>The loop over the result set of a search, 300 records per request.\<close>

function search_batches ::
  "environment \<Rightarrow> request list \<Rightarrow> string \<Rightarrow> string \<Rightarrow> int \<Rightarrow> int \<Rightarrow> GenBankData list \<Rightarrow>
   request list \<times> (error + GenBankData list)" where
  "search_batches env log webenv query_key count' retstart all_data =
     (if count' > 0 then
        (case send_gb_request env log [] False
                [(''webenv'', PyStr webenv), (''retstart'', PyInt retstart),
                 (''retmax'', PyInt (int ACCESSIONS_PER_REQUEST)), (''query_key'', PyStr query_key)] of
           (log', Inl e) \<Rightarrow> (log', Inl e)
         | (log', Inr batch) \<Rightarrow>
             search_batches env log' webenv query_key
               (count' - int ACCESSIONS_PER_REQUEST) (retstart + int ACCESSIONS_PER_REQUEST)
               (all_data @ batch))
      else (log, Inr all_data))"
  by pat_completeness auto
termination
  by (relation "measure (\<lambda>(env, log, webenv, query_key, count', retstart, all_data). nat count')")
     (auto simp: ACCESSIONS_PER_REQUEST_def)

text \<open>The loop over the requested accessions, 300 per request.\<close>

function accession_batches ::
  "environment \<Rightarrow> request list \<Rightarrow> string list \<Rightarrow> bool \<Rightarrow> GenBankData list \<Rightarrow>
   request list \<times> (error + GenBankData list)" where
  "accession_batches env log desired_numbers raise_if_missing all_data =
     (if length desired_numbers > 0 then
        (case send_gb_request env log (take ACCESSIONS_PER_REQUEST desired_numbers)
                raise_if_missing [] of
           (log', Inl e) \<Rightarrow> (log', Inl e)
         | (log', Inr batch_result) \<Rightarrow>
             accession_batches env log' (drop ACCESSIONS_PER_REQUEST desired_numbers)
               raise_if_missing (all_data @ batch_result))
      else (log, Inr all_data))"
  by pat_completeness auto
termination
  by (relation "measure (\<lambda>(env, log, desired_numbers, raise_if_missing, all_data).
                  length desired_numbers)")
     (auto simp: ACCESSIONS_PER_REQUEST_def)

text \<open>
  \<^verbatim>\<open>retrieve_gb(accession_numbers, term, raise_if_missing)\<close>. The result is the log
  of requests after the call and the exception or the records.
\<close>

definition retrieve_gb ::
  "environment \<Rightarrow> request list \<Rightarrow> string list \<Rightarrow> string option \<Rightarrow> bool \<Rightarrow>
   request list \<times> (error + GenBankData list)" where
  "retrieve_gb env log accession_numbers term raise_if_missing =
     (if length accession_numbers = 0 \<and> term = None then (log, Inl ValueError)
      else if int (length accession_numbers) > MAX_ACCESSIONS
      then (log, Inl (AccessionLimitExceeded (Inl accession_numbers) MAX_ACCESSIONS))
      else
        (let desired_numbers = list_set env accession_numbers;
             searched =
               (case term of
                  None \<Rightarrow> (log, Inr [])
                | Some t \<Rightarrow>
                    (let t' = strip t in
                     if length t' > 0 then
                       (case esearch env t' of
                          None \<Rightarrow> (log @ [ESearch t'], Inl (GenBankConnectionError [] t'))
                        | Some (count', webenv, query_key) \<Rightarrow>
                            if count' > MAX_ACCESSIONS
                            then (log @ [ESearch t'],
                                  Inl (AccessionLimitExceeded (Inr count') MAX_ACCESSIONS))
                            else search_batches env (log @ [ESearch t']) webenv query_key
                                   count' 0 [])
                     else (log, Inr [])))
         in case searched of
              (log1, Inl e) \<Rightarrow> (log1, Inl e)
            | (log1, Inr all_data) \<Rightarrow>
                accession_batches env log1 desired_numbers raise_if_missing all_data))"

text \<open>
  The call \<^verbatim>\<open>save_taxonomy(genbank_data)\<close> of line 477 of the controller.
  \<^verbatim>\<open>save_taxonomy(taxonomy_info, user)\<close> declares two parameters and no default, and
  its two decorators pass the arguments on as they are: the call with one argument
  raises \<^verbatim>\<open>TypeError\<close> before the body runs.
\<close>

definition save_taxonomy :: "GenBankData list \<Rightarrow> error + GenBankData list" where
  "save_taxonomy taxonomy_info = Inl TypeError"

section \<open>Adding records: \<^verbatim>\<open>add_sequences_to_database\<close>\<close>

text \<open>\<^verbatim>\<open>NuccoreSequence.__str__\<close>.\<close>

definition str_NuccoreSequence :: "NuccoreSequence \<Rightarrow> string" where
  "str_NuccoreSequence s = accession_number s @ '', '' @ organism s @ '' ('' @ seq_id s @ '')''"

text \<open>\<^verbatim>\<open>NuccoreSequence(owner_database=database, **data)\<close>, with its primary key.\<close>

definition new_sequence :: "BlastDb \<Rightarrow> string \<Rightarrow> GenBankData \<Rightarrow> NuccoreSequence" where
  "new_sequence database key data =
     \<lparr>accession_number = accession_number data, version = version data,
      definition_line = definition_line data, dna_sequence = dna_sequence data,
      organism = organism data, organelle = organelle data, isolate = isolate data,
      country = country data, specimen_voucher = specimen_voucher data,
      type_material = type_material data, lat_lon = lat_lon data, taxid = taxid data,
      taxon_superkingdom = taxon_superkingdom data, taxon_kingdom = taxon_kingdom data,
      taxon_phylum = taxon_phylum data, taxon_class = taxon_class data,
      taxon_order = taxon_order data, taxon_family = taxon_family data,
      taxon_genus = taxon_genus data, taxon_species = taxon_species data,
      seq_id = key, owner_database = db_id database\<rparr>"

text \<open>
  The tests of the loop body that end in \<^verbatim>\<open>continue\<close>, in the order of the source:
  the accession exists already, the length is out of bounds, there are too many
  \<^verbatim>\<open>N\<close>, a taxonomic rank is missing, the accession or the version is blacklisted.
\<close>

definition skips ::
  "int \<Rightarrow> int \<Rightarrow> int \<Rightarrow> string list \<Rightarrow> bool \<Rightarrow> string set \<Rightarrow> GenBankData \<Rightarrow> bool" where
  "skips min_length max_length max_ambiguous_bases blacklist require_taxonomy existing data =
     (let an = accession_number data;
          sequence = dna_sequence data;
          seq_len = int (length sequence);
          n = int (length (filter (\<lambda>base. base = CHR ''N'') sequence));
          missing = filter (\<lambda>t. t = None)
                      [taxon_superkingdom data, taxon_kingdom data, taxon_phylum data,
                       taxon_class data, taxon_order data, taxon_family data,
                       taxon_genus data, taxon_species data]
      in an \<in> existing
         \<or> (min_length > -1 \<and> seq_len < min_length)
         \<or> (max_length > -1 \<and> seq_len > max_length)
         \<or> (max_ambiguous_bases > -1 \<and> n > max_ambiguous_bases)
         \<or> (require_taxonomy \<and> length missing > 0)
         \<or> (an \<in> set blacklist \<or> version data \<in> set blacklist))"

text \<open>One turn of the loop: the rows to create, the accessions present, the keys drawn.\<close>

definition add_step ::
  "environment \<Rightarrow> BlastDb \<Rightarrow> int \<Rightarrow> int \<Rightarrow> int \<Rightarrow> string list \<Rightarrow> bool \<Rightarrow> GenBankData \<Rightarrow>
   NuccoreSequence list \<times> string set \<times> nat \<Rightarrow> NuccoreSequence list \<times> string set \<times> nat" where
  "add_step env database min_length max_length max_ambiguous_bases blacklist require_taxonomy
       data st =
     (case st of (to_create, existing, k) \<Rightarrow>
        if skips min_length max_length max_ambiguous_bases blacklist require_taxonomy
             existing data
        then (to_create, existing, k)
        else (to_create @ [new_sequence database (uuid4 env k) data],
              insert (accession_number data) existing, Suc k))"

text \<open>
  \<^verbatim>\<open>log_added_sequences\<close>: \<^verbatim>\<open>ValueError\<close> when the string of an instance differs from the
  string of the database's key; otherwise the change reason, \<^verbatim>\<open>added\<close> and
  \<^verbatim>\<open>search_terms\<close> of the database are set.
\<close>

definition log_added_sequences ::
  "NuccoreSequence list \<Rightarrow> string option \<Rightarrow> BlastDb \<Rightarrow> error + BlastDb" where
  "log_added_sequences instances search_term database =
     (if list_ex (\<lambda>i. str_NuccoreSequence i \<noteq> db_id database) instances then Inl ValueError
      else Inr ((append_change_reason database ''Added sequences'')
                  \<lparr>added_log := join '', '' (map version instances),
                   search_terms := (case search_term of None \<Rightarrow> '''' | Some t \<Rightarrow> t)\<rparr>))"

text \<open>
  \<^verbatim>\<open>add_sequences_to_database\<close>, statement by statement. The call of
  \<^verbatim>\<open>save_taxonomy\<close> stands between the fetch and the loop over the fetched records.
\<close>

definition add_sequences_to_database ::
  "environment \<Rightarrow> world \<Rightarrow> BlastDb \<Rightarrow> string list \<Rightarrow> string option \<Rightarrow> int \<Rightarrow> int \<Rightarrow> int \<Rightarrow>
   string list \<Rightarrow> bool \<Rightarrow> world \<times> (error + NuccoreSequence list)" where
  "add_sequences_to_database env w database desired_numbers search_term min_length max_length
       max_ambiguous_bases blacklist require_taxonomy =
     (if locked database then (w, Inl DatabaseLocked)
      else if length desired_numbers = 0 \<and> search_term = None then (w, Inr [])
      else
        (let desired = list_set env desired_numbers;
             existing = set (map accession_number (sequences_of w database));
             conflicts = filter (\<lambda>e. e \<in> existing) desired
         in if length conflicts > 0 then (w, Inl (AccessionsAlreadyExist conflicts))
            else
              (case retrieve_gb env (requests w) desired search_term False of
                 (log, Inl e) \<Rightarrow> (w\<lparr>requests := log\<rparr>, Inl e)
               | (log, Inr fetched) \<Rightarrow>
                   (case save_taxonomy fetched of
                      Inl e \<Rightarrow> (w\<lparr>requests := log\<rparr>, Inl e)
                    | Inr genbank_data \<Rightarrow>
                        (let (to_create, existing', k) =
                               fold (add_step env database min_length max_length
                                       max_ambiguous_bases blacklist require_taxonomy)
                                    genbank_data ([], existing, uuid_count w);
                             w1 = w\<lparr>requests := log, sequences := sequences w @ to_create,
                                    uuid_count := k\<rparr>
                         in case log_added_sequences to_create search_term database of
                              Inl e \<Rightarrow> (w1, Inl e)
                            | Inr database' \<Rightarrow>
                                (case save_blastdb env w1 database' False of
                                   (w2, Inl (e, obj)) \<Rightarrow> (w2, Inl e)
                                 | (w2, Inr obj) \<Rightarrow> (w2, Inr to_create)))))))"

section \<open>Parsing the source feature: \<^verbatim>\<open>parse_gb_handle\<close>\<close>

text \<open>
  A feature of a record, with its type and its qualifiers, and the part of the loop
  body of \<^verbatim>\<open>parse_gb_handle\<close> that reads the qualifiers of the first feature of type
  \<^verbatim>\<open>source\<close> into the dictionary \<^verbatim>\<open>current_data\<close>.
\<close>

record SeqFeature =
  feature_type :: string
  qualifiers :: "string \<rightharpoonup> string list"

definition qualifiers_to_extract :: "string list" where
  "qualifiers_to_extract = [''organism'', ''organelle'', ''isolate'', ''country'',
     ''specimen_voucher'', ''type_material'', ''lat_lon'', ''db_xref'', ''identified_by'',
     ''collected_by'', ''collection_date'']"

text \<open>
  The loop over the values of \<^verbatim>\<open>db_xref\<close>. Unpacking \<^verbatim>\<open>qualifier_value.split(':')\<close>
  into two names raises \<^verbatim>\<open>ValueError\<close> unless there are exactly two parts; the
  handler around it catches \<^verbatim>\<open>IndexError\<close> only.
\<close>

fun taxon_xref :: "string list \<Rightarrow> (string \<rightharpoonup> string) \<Rightarrow> error + (string \<rightharpoonup> string)" where
  "taxon_xref [] d = Inr d"
| "taxon_xref (qualifier_value # rest) d =
     (case split_at CHR '':'' qualifier_value of
        [database, identifier] \<Rightarrow>
          if database = ''taxon'' then Inr (d(''taxid'' \<mapsto> identifier))
          else taxon_xref rest d
      | _ \<Rightarrow> Inl ValueError)"

definition extract_qualifier ::
  "(string \<rightharpoonup> string list) \<Rightarrow> string \<Rightarrow> (string \<rightharpoonup> string) \<Rightarrow>
   error + (string \<rightharpoonup> string)" where
  "extract_qualifier quals qualifier_name d =
     (case quals qualifier_name of
        None \<Rightarrow> Inr (d(qualifier_name \<mapsto> ''''))
      | Some vals \<Rightarrow>
          if qualifier_name = ''db_xref'' then taxon_xref vals d
          else (case vals of
                  [] \<Rightarrow> Inr (d(qualifier_name \<mapsto> ''error''))
                | v # _ \<Rightarrow> Inr (d(qualifier_name \<mapsto> v))))"

fun extract_qualifiers ::
  "(string \<rightharpoonup> string list) \<Rightarrow> string list \<Rightarrow> (string \<rightharpoonup> string) \<Rightarrow>
   error + (string \<rightharpoonup> string)" where
  "extract_qualifiers quals [] d = Inr d"
| "extract_qualifiers quals (qualifier_name # names) d =
     (case extract_qualifier quals qualifier_name d of
        Inl e \<Rightarrow> Inl e
      | Inr d' \<Rightarrow> extract_qualifiers quals names d')"

text \<open>
  Lines 125 to 142. The qualifier values are strings, so joining them does not raise
  and the handler that sets \<^verbatim>\<open>notes = 'error'\<close> is not entered. The \<^verbatim>\<open>finally\<close> clause
  stores \<^verbatim>\<open>notes\<close> whether or not a keyword was found.
\<close>

definition note_type_material ::
  "(string \<rightharpoonup> string list) \<Rightarrow> (string \<rightharpoonup> string) \<Rightarrow> (string \<rightharpoonup> string)" where
  "note_type_material quals d =
     (case quals ''note'' of
        None \<Rightarrow> d
      | Some note \<Rightarrow>
          if d ''type_material'' = Some '''' then
            (let notes = join newline note;
                 notes_lower = lower notes
             in d(''type_material'' \<mapsto>
                    (if (contains notes_lower ''paratype'' \<or> contains notes_lower ''holotype'')
                        \<and> startswith notes_lower ''type: '' \<and> length notes_lower > 6
                     then drop 6 notes else notes)))
          else d)"

definition parse_source ::
  "SeqFeature list \<Rightarrow> (string \<rightharpoonup> string) \<Rightarrow> error + (string \<rightharpoonup> string)" where
  "parse_source features current_data =
     (case filter (\<lambda>feature. feature_type feature = ''source'') features of
        [] \<Rightarrow> Inr (fold (\<lambda>qualifier_name d. d(qualifier_name \<mapsto> ''N/A''))
                     qualifiers_to_extract current_data)
      | source_feature # _ \<Rightarrow>
          (case extract_qualifiers (qualifiers source_feature) qualifiers_to_extract
                  current_data of
             Inl e \<Rightarrow> Inl e
           | Inr d \<Rightarrow> Inr (note_type_material (qualifiers source_feature) d)))"

section \<open>Example state\<close>

text \<open>
  A library with a published version 1.0.0 (\<open>db0\<close>, holding A1 and A2) and an
  unpublished working copy (\<open>db1\<close>, holding A1 and A3), in a process that has not
  yet computed any summary.
\<close>

definition example_seq :: "string \<Rightarrow> string \<Rightarrow> string \<Rightarrow> string \<Rightarrow> string \<Rightarrow> NuccoreSequence" where
  "example_seq sid owner acc dna org =
     \<lparr>accession_number = acc, version = acc @ ''.1'', definition_line = '''',
      dna_sequence = dna, organism = org, organelle = '''', isolate = '''', country = '''',
      specimen_voucher = '''', type_material = '''', lat_lon = '''',
      taxid = '''', taxon_superkingdom = None, taxon_kingdom = None, taxon_phylum = None,
      taxon_class = None, taxon_order = None, taxon_family = None, taxon_genus = None,
      taxon_species = None, seq_id = sid, owner_database = owner\<rparr>"

definition example_db :: "string \<Rightarrow> int \<Rightarrow> int \<Rightarrow> int \<Rightarrow> bool \<Rightarrow> BlastDb" where
  "example_db i g m n l =
     \<lparr>db_id = i, library = ''lib'', genbank_version = g, major_version = m,
      minor_version = n, locked = l, change_reason = Some '''', added_log = '''',
      search_terms = ''''\<rparr>"

definition example_world :: world where
  "example_world =
     \<lparr>blastdbs = [example_db ''db0'' 1 0 0 True, example_db ''db1'' 0 0 0 False],
      sequences = [example_seq ''s1'' ''db0'' ''A1'' ''ACGT'' ''x'',
                   example_seq ''s2'' ''db0'' ''A2'' ''ACGT'' ''x'',
                   example_seq ''s3'' ''db1'' ''A1'' ''ACGT'' ''x'',
                   example_seq ''s4'' ''db1'' ''A3'' ''ACGT'' ''x''],
      summary_class = class_body, fasta_files = Map.empty, makeblastdb_runs = [],
      requests = [], uuid_count = 0\<rparr>"

definition example_env :: "int \<Rightarrow> environment" where
  "example_env status = \<lparr>fishdb_path_exists = False, rmtree_ok = True, os_calls_ok = True,
     makeblastdb_status = status, esearch = (\<lambda>t. None), efetch = (\<lambda>k. Failure),
     uuid4 = (\<lambda>n. replicate (Suc n) CHR ''u''), hash_order = remdups\<rparr>"

definition sealed_db1 :: BlastDb where
  "sealed_db1 = (example_db ''db1'' 2 0 0 True)\<lparr>change_reason := Some ''Locked database''\<rparr>"

definition resealed_db0 :: BlastDb where
  "resealed_db0 = (example_db ''db0'' 1 0 1 True)\<lparr>change_reason := Some ''Locked database''\<rparr>"

text \<open>The folder of a database that was sealed before exists.\<close>

definition resealing_env :: environment where
  "resealing_env = (example_env 0)\<lparr>fishdb_path_exists := True\<rparr>"

definition failing_env :: environment where
  "failing_env = (example_env 0)\<lparr>fishdb_path_exists := True, rmtree_ok := False\<rparr>"

text \<open>1501 distinct accessions: \<open>A\<close>, \<open>AA\<close>, \<open>AAA\<close>, and so on.\<close>

definition many_accessions :: "string list" where
  "many_accessions = map (\<lambda>n. replicate n CHR ''A'') [1..<1502]"

text \<open>A search whose result holds A1, present in \<open>db1\<close> already, and the new A7.\<close>

definition example_data :: "string \<Rightarrow> GenBankData" where
  "example_data acc =
     \<lparr>accession_number = acc, version = acc @ ''.1'', definition_line = '''',
      dna_sequence = ''ACGT'', organism = ''x'', organelle = '''', isolate = '''',
      country = '''', specimen_voucher = '''', type_material = '''', lat_lon = '''',
      taxid = '''', taxon_superkingdom = None, taxon_kingdom = None, taxon_phylum = None,
      taxon_class = None, taxon_order = None, taxon_family = None, taxon_genus = None,
      taxon_species = None\<rparr>"

definition search_env :: environment where
  "search_env = (example_env 0)
     \<lparr>esearch := (\<lambda>t. Some (2, ''webenv'', ''1'')),
      efetch := (\<lambda>k. Records [example_data ''A1'', example_data ''A7''])\<rparr>"

text \<open>Source features with a note and without a \<^verbatim>\<open>type_material\<close> qualifier.\<close>

definition source_with_note :: "string \<Rightarrow> SeqFeature" where
  "source_with_note note =
     \<lparr>feature_type = ''source'',
      qualifiers = [''organism'' \<mapsto> [''Danio rerio''], ''note'' \<mapsto> [note]]\<rparr>"

section \<open>Properties of the diff and of sealing\<close>

lemmas ex_defs = example_seq_def example_db_def example_world_def example_env_def class_body_def

lemmas diff_defs = calculate_update_summary_def diff_rows_def index_current_def scan_last_def
  classify_def sequences_of_def has_any_field_changed_def fields_to_check_def getattr_def

lemmas seal_defs = save_blastdb_def latest_def version_le_def version_nums_def obj_save_def
  smallint_def fasta_text_def

lemmas eval_defs = ex_defs diff_defs seal_defs Let_def case_prod_beta

lemma sequences_calculate_update_summary:
  "sequences (fst (calculate_update_summary w a b)) = sequences w"
  by (simp add: calculate_update_summary_def Let_def)

lemma sequences_obj_save: "obj_save w obj = Inr w' \<Longrightarrow> sequences w' = sequences w"
  by (auto simp: obj_save_def split: if_splits)

lemma sequences_save_blastdb:
  "sequences (fst (save_blastdb env w obj perform_lock)) = sequences w"
proof (cases perform_lock)
  case False
  then show ?thesis
    by (auto simp: save_blastdb_def dest: sequences_obj_save split: sum.splits)
next
  case True
  then show ?thesis
    by (auto simp: save_blastdb_def Let_def case_prod_beta sequences_calculate_update_summary
          dest!: sequences_obj_save split: option.splits sum.splits)
qed

text \<open>
  C1, as the code has it. \<^verbatim>\<open>save_blastdb\<close> does not test \<^verbatim>\<open>obj.locked\<close>: sealing a
  Snapshot that is already locked never fails with \<^verbatim>\<open>DatabaseLocked\<close> and leaves the
  record set as it was. Whenever the call returns, the Snapshot it returns is locked
  and carries the version triple that the version policy computes from the library's
  latest locked Snapshot, or 1.0.0 when there is none: the version of a locked
  Snapshot is assigned anew.
\<close>

theorem seal_locked_reseals:
  assumes "locked obj"
  shows "(\<forall>obj''. snd (save_blastdb env w obj True) \<noteq> Inl (DatabaseLocked, obj''))
    \<and> sequences (fst (save_blastdb env w obj True)) = sequences w
    \<and> (\<forall>obj'. snd (save_blastdb env w obj True) = Inr obj' \<longrightarrow>
          locked obj'
          \<and> (genbank_version obj', major_version obj', minor_version obj') =
             (case latest w (library obj) of
                None \<Rightarrow> (1, 0, 0)
              | Some lastPublished \<Rightarrow>
                  version_nums lastPublished
                    (snd (calculate_update_summary w lastPublished obj))))"
proof -
  have a: "\<forall>obj''. snd (save_blastdb env w obj True) \<noteq> Inl (DatabaseLocked, obj'')"
    by (auto simp: save_blastdb_def obj_save_def Let_def case_prod_beta
          split: option.splits sum.splits if_splits)
  have c: "\<forall>obj'. snd (save_blastdb env w obj True) = Inr obj' \<longrightarrow>
          locked obj'
          \<and> (genbank_version obj', major_version obj', minor_version obj') =
             (case latest w (library obj) of
                None \<Rightarrow> (1, 0, 0)
              | Some lastPublished \<Rightarrow>
                  version_nums lastPublished
                    (snd (calculate_update_summary w lastPublished obj)))"
    by (auto simp: save_blastdb_def Let_def case_prod_beta
          split: option.splits sum.splits if_splits)
  from a c show ?thesis by (simp add: sequences_save_blastdb)
qed

theorem seal_locked_reseals_witness:
  "locked (example_db ''db0'' 1 0 0 True)
   \<and> snd (save_blastdb resealing_env example_world (example_db ''db0'' 1 0 0 True) True)
       = Inr resealed_db0
   \<and> locked resealed_db0
   \<and> (genbank_version resealed_db0, major_version resealed_db0, minor_version resealed_db0)
       = (1, 0, 1)
   \<and> sequences (fst (save_blastdb resealing_env example_world
                        (example_db ''db0'' 1 0 0 True) True))
       = sequences example_world"
proof -
  have l: "locked (example_db ''db0'' 1 0 0 True)" by (simp add: example_db_def)
  have r: "snd (save_blastdb resealing_env example_world (example_db ''db0'' 1 0 0 True) True)
             = Inr resealed_db0"
    by (simp add: eval_defs resealed_db0_def resealing_env_def)
  have v: "(case latest example_world (library (example_db ''db0'' 1 0 0 True)) of
              None \<Rightarrow> (1, 0, 0)
            | Some lastPublished \<Rightarrow>
                version_nums lastPublished
                  (snd (calculate_update_summary example_world lastPublished
                          (example_db ''db0'' 1 0 0 True))))
            = (1, 0, 1)"
    by (simp add: eval_defs)
  from seal_locked_reseals [OF l, of resealing_env example_world] r v l show ?thesis
    by simp
qed

theorem seal_locked_counterexample:
  "locked (example_db ''db0'' 1 0 0 True)
   \<and> snd (save_blastdb resealing_env example_world (example_db ''db0'' 1 0 0 True) True)
       = Inr resealed_db0
   \<and> minor_version resealed_db0 \<noteq> minor_version (example_db ''db0'' 1 0 0 True)"
  by (simp add: eval_defs resealed_db0_def resealing_env_def)

lemma fold_scan_last:
  "fold (scan_last cur) ls (al, s) =
     (fold (\<lambda>seq d. d(accession_number seq \<mapsto> seq)) ls al,
      s\<lparr>deleted := deleted s @ filter (\<lambda>a. cur a = None) (map accession_number ls)\<rparr>)"
  by (induction ls arbitrary: al s) (simp_all add: scan_last_def)

lemma fold_index_None:
  "(fold (\<lambda>seq d. d(accession_number seq \<mapsto> seq)) ls al) a = None
     \<longleftrightarrow> al a = None \<and> a \<notin> set (map accession_number ls)"
  by (induction ls arbitrary: al) auto

lemma fold_index_key:
  "(\<And>a i. al a = Some i \<Longrightarrow> accession_number i = a) \<Longrightarrow>
   (fold (\<lambda>seq d. d(accession_number seq \<mapsto> seq)) ls al) a = Some i \<Longrightarrow>
   accession_number i = a"
proof (induction ls arbitrary: al)
  case Nil
  then show ?case by simp
next
  case (Cons x xs)
  have "\<And>a i. (al(accession_number x \<mapsto> x)) a = Some i \<Longrightarrow> accession_number i = a"
    using Cons.prems(1) by (auto split: if_splits)
  from Cons.IH [OF this] Cons.prems(2) show ?case by simp
qed

lemma mset_buckets_classify:
  assumes "\<And>a i. al a = Some i \<Longrightarrow> accession_number i = a"
  shows "mset (buckets (classify al c s)) = add_mset (accession_number c) (mset (buckets s))"
proof (cases "al (accession_number c)")
  case None
  then show ?thesis by (simp add: classify_def buckets_def)
next
  case (Some i)
  with assms have "accession_number i = accession_number c" by simp
  with Some show ?thesis by (simp add: classify_def buckets_def)
qed

lemma mset_buckets_fold_classify:
  assumes "\<And>a i. al a = Some i \<Longrightarrow> accession_number i = a"
  shows "mset (buckets (fold (classify al) cs s)) = mset (map accession_number cs) + mset (buckets s)"
  by (induction cs arbitrary: s) (simp_all add: mset_buckets_classify [OF assms])

lemma mset_buckets_diff_rows:
  "mset (buckets (diff_rows class_body last_sequences current_sequences)) =
     mset (map accession_number current_sequences)
     + mset (filter (\<lambda>a. a \<notin> set (map accession_number current_sequences))
               (map accession_number last_sequences))"
proof -
  have key: "\<And>a i. fold (\<lambda>seq d. d(accession_number seq \<mapsto> seq)) last_sequences Map.empty a
                  = Some i \<Longrightarrow> accession_number i = a"
    by (rule fold_index_key [of Map.empty]) simp_all
  have cur: "(\<lambda>a. index_current current_sequences a = None)
             = (\<lambda>a. a \<notin> set (map accession_number current_sequences))"
    by (simp add: index_current_def fold_index_None)
  let ?al = "fold (\<lambda>seq d. d(accession_number seq \<mapsto> seq)) last_sequences Map.empty"
  let ?s0 = "class_body\<lparr>deleted := deleted class_body
               @ filter (\<lambda>a. index_current current_sequences a = None)
                   (map accession_number last_sequences)\<rparr>"
  have d: "diff_rows class_body last_sequences current_sequences
             = fold (classify ?al) current_sequences ?s0"
    by (simp add: diff_rows_def Let_def fold_scan_last)
  have b: "buckets ?s0 = filter (\<lambda>a. a \<notin> set (map accession_number current_sequences))
               (map accession_number last_sequences)"
    by (simp add: buckets_def class_body_def cur)
  have "mset (buckets (fold (classify ?al) current_sequences ?s0))
          = mset (map accession_number current_sequences) + mset (buckets ?s0)"
    by (rule mset_buckets_fold_classify [OF key])
  with d b show ?thesis by simp
qed

text \<open>
  The first summary computed in a process, when no accession occurs twice in either
  set: the five buckets hold exactly the accessions of the two sets, each once.
\<close>

lemma diff_rows_partition_from_empty:
  assumes "distinct (map accession_number last_sequences)"
      and "distinct (map accession_number current_sequences)"
  shows "set (buckets (diff_rows class_body last_sequences current_sequences))
           = set (map accession_number last_sequences)
             \<union> set (map accession_number current_sequences)"
    and "distinct (buckets (diff_rows class_body last_sequences current_sequences))"
proof -
  let ?xs = "map accession_number current_sequences
             @ filter (\<lambda>a. a \<notin> set (map accession_number current_sequences))
                 (map accession_number last_sequences)"
  have m: "mset (buckets (diff_rows class_body last_sequences current_sequences)) = mset ?xs"
    by (simp add: mset_buckets_diff_rows)
  have "set ?xs = set (map accession_number last_sequences)
             \<union> set (map accession_number current_sequences)"
    by auto
  with mset_eq_setD [OF m]
  show "set (buckets (diff_rows class_body last_sequences current_sequences))
           = set (map accession_number last_sequences)
             \<union> set (map accession_number current_sequences)"
    by simp
  have "distinct ?xs" using assms by auto
  with mset_eq_imp_distinct_iff [OF m]
  show "distinct (buckets (diff_rows class_body last_sequences current_sequences))"
    by simp
qed

text \<open>
  C2, at two diffs computed one after the other in one process. The buckets are the
  lists of the class \<^verbatim>\<open>SequenceUpdateSummary\<close>, so the second summary, of
  \<open>{A1, A2}\<close> against \<open>{A1, A2}\<close>, still holds the entries of the first: A3 is in
  \<open>added\<close> although it is in neither set, A2 is in \<open>deleted\<close> and in \<open>no_change\<close>, and A1
  is twice in \<open>no_change\<close>.
\<close>

theorem diff_second_call_accumulates:
  "snd (calculate_update_summary
          (fst (calculate_update_summary example_world
                  (example_db ''db0'' 1 0 0 True) (example_db ''db1'' 0 0 0 False)))
          (example_db ''db0'' 1 0 0 True) (example_db ''db0'' 1 0 0 True))
   = \<lparr>no_change = [''A1'', ''A1'', ''A2''], accession_version_changed = [],
      metadata_changed = [], deleted = [''A2''], added = [''A3'']\<rparr>"
  by (simp add: eval_defs)

text \<open>
  C3. For every published version with triple \<open>(g, m, n)\<close> and every summary, the
  triple computed is \<open>(g+1, 0, 0)\<close> if \<open>added\<close>, \<open>deleted\<close> or
  \<open>accession_version_changed\<close> is non-empty, else \<open>(g, m+1, 0)\<close> if \<open>metadata_changed\<close>
  is non-empty, else \<open>(g, m, n+1)\<close>; a summary with non-empty \<open>added\<close> and non-empty
  \<open>metadata_changed\<close> gives \<open>(g+1, 0, 0)\<close>. When a published version exists and the
  seal succeeds, the sealed Snapshot has the triple computed from the latest published
  version and the summary of the diff against it.
\<close>

theorem seal_version_ladder:
  "version_nums lastPublished s =
     (if added s \<noteq> [] \<or> deleted s \<noteq> [] \<or> accession_version_changed s \<noteq> []
      then (genbank_version lastPublished + 1, 0, 0)
      else if metadata_changed s \<noteq> []
      then (genbank_version lastPublished, major_version lastPublished + 1, 0)
      else (genbank_version lastPublished, major_version lastPublished,
            minor_version lastPublished + 1))
   \<and> (added s \<noteq> [] \<and> metadata_changed s \<noteq> [] \<longrightarrow>
        version_nums lastPublished s = (genbank_version lastPublished + 1, 0, 0))
   \<and> (latest w (library obj) = Some lastPublished
        \<and> snd (save_blastdb env w obj True) = Inr obj' \<longrightarrow>
        (genbank_version obj', major_version obj', minor_version obj') =
           version_nums lastPublished (snd (calculate_update_summary w lastPublished obj)))"
proof -
  have "latest w (library obj) = Some lastPublished
        \<and> snd (save_blastdb env w obj True) = Inr obj' \<longrightarrow>
        (genbank_version obj', major_version obj', minor_version obj') =
           version_nums lastPublished (snd (calculate_update_summary w lastPublished obj))"
    by (auto simp: save_blastdb_def Let_def case_prod_beta
          split: option.splits sum.splits if_splits)
  then show ?thesis by (simp add: version_nums_def)
qed

theorem seal_version_ladder_witness:
  "latest example_world (library (example_db ''db1'' 0 0 0 False))
     = Some (example_db ''db0'' 1 0 0 True)
   \<and> snd (save_blastdb (example_env 0) example_world (example_db ''db1'' 0 0 0 False) True)
       = Inr sealed_db1
   \<and> (genbank_version sealed_db1, major_version sealed_db1, minor_version sealed_db1) = (2, 0, 0)
   \<and> version_nums (example_db ''db0'' 1 0 0 True)
        (class_body\<lparr>added := [''A3''], metadata_changed := [''A1'']\<rparr>) = (2, 0, 0)"
proof -
  have l: "latest example_world (library (example_db ''db1'' 0 0 0 False))
             = Some (example_db ''db0'' 1 0 0 True)"
    by (simp add: eval_defs)
  have s: "snd (save_blastdb (example_env 0) example_world (example_db ''db1'' 0 0 0 False) True)
             = Inr sealed_db1"
    by (simp add: eval_defs sealed_db1_def)
  have v: "version_nums (example_db ''db0'' 1 0 0 True)
             (snd (calculate_update_summary example_world (example_db ''db0'' 1 0 0 True)
                     (example_db ''db1'' 0 0 0 False))) = (2, 0, 0)"
    by (simp add: eval_defs)
  have p: "added (class_body\<lparr>added := [''A3''], metadata_changed := [''A1'']\<rparr>) \<noteq> []
           \<and> metadata_changed (class_body\<lparr>added := [''A3''], metadata_changed := [''A1'']\<rparr>) \<noteq> []"
    by simp
  from seal_version_ladder [where lastPublished = "example_db ''db0'' 1 0 0 True"
         and s = "class_body\<lparr>added := [''A3''], metadata_changed := [''A1'']\<rparr>"
         and w = example_world and obj = "example_db ''db1'' 0 0 0 False"
         and env = "example_env 0" and obj' = sealed_db1] l s v p
  show ?thesis by (simp add: example_db_def)
qed

text \<open>
  C6, as the code has it. The exit status of the build tool is never read: the result
  of the seal and the state it leaves are the same for every exit status. A failed
  build therefore raises no error, and whenever the seal returns, also after a failed
  build, the Snapshot it returns is locked.
\<close>

theorem seal_ignores_build_status:
  "save_blastdb (env\<lparr>makeblastdb_status := k\<rparr>) w obj True = save_blastdb env w obj True
   \<and> (\<forall>obj'. snd (save_blastdb (env\<lparr>makeblastdb_status := k\<rparr>) w obj True) = Inr obj'
          \<longrightarrow> locked obj')"
proof -
  have a: "save_blastdb (env\<lparr>makeblastdb_status := k\<rparr>) w obj True = save_blastdb env w obj True"
    by (simp add: save_blastdb_def)
  have "\<forall>obj'. snd (save_blastdb env w obj True) = Inr obj' \<longrightarrow> locked obj'"
    by (auto simp: save_blastdb_def Let_def case_prod_beta
          split: option.splits sum.splits if_splits)
  with a show ?thesis by simp
qed

theorem seal_ignores_build_status_witness:
  "save_blastdb ((example_env 0)\<lparr>makeblastdb_status := 1\<rparr>) example_world
       (example_db ''db1'' 0 0 0 False) True
     = save_blastdb (example_env 0) example_world (example_db ''db1'' 0 0 0 False) True
   \<and> snd (save_blastdb ((example_env 0)\<lparr>makeblastdb_status := 1\<rparr>) example_world
            (example_db ''db1'' 0 0 0 False) True) = Inr sealed_db1
   \<and> locked sealed_db1"
proof -
  have s: "snd (save_blastdb ((example_env 0)\<lparr>makeblastdb_status := 1\<rparr>) example_world
            (example_db ''db1'' 0 0 0 False) True) = Inr sealed_db1"
    by (simp add: eval_defs sealed_db1_def)
  from seal_ignores_build_status [where env = "example_env 0" and k = 1 and w = example_world
           and obj = "example_db ''db1'' 0 0 0 False"] s
  show ?thesis by simp
qed

theorem seal_build_failure_counterexample:
  "makeblastdb_status (example_env 1) \<noteq> 0
   \<and> \<not> locked (example_db ''db1'' 0 0 0 False)
   \<and> snd (save_blastdb (example_env 1) example_world (example_db ''db1'' 0 0 0 False) True)
       = Inr sealed_db1
   \<and> locked sealed_db1
   \<and> genbank_version sealed_db1 \<noteq> genbank_version (example_db ''db1'' 0 0 0 False)"
  by (simp add: eval_defs sealed_db1_def)

text \<open>
  C8, as the code has it. The triple assigned is strictly greater than the triple of
  the latest published version in the lexicographic order of (genbank, major, minor),
  and its genbank component is never smaller. A higher bump resets the lower
  components to 0, so these may decrease.
\<close>

theorem version_nums_lexicographic:
  "(case version_nums lastPublished s of (g, m, n) \<Rightarrow>
      genbank_version lastPublished \<le> g
      \<and> (genbank_version lastPublished < g
         \<or> (genbank_version lastPublished = g \<and> major_version lastPublished < m)
         \<or> (genbank_version lastPublished = g \<and> major_version lastPublished = m
             \<and> minor_version lastPublished < n)))"
  by (simp add: version_nums_def)

theorem version_nums_componentwise_counterexample:
  "\<not> major_version (example_db ''db0'' 1 1 0 True)
      \<le> fst (snd (version_nums (example_db ''db0'' 1 1 0 True) (class_body\<lparr>added := [''A3'']\<rparr>)))"
  by (simp add: version_nums_def example_db_def class_body_def)

section \<open>Properties of filtering\<close>

lemmas filter_defs = filter_sequences_in_database_def violations_def
  append_change_reason_def

lemma sequences_filter_sequences_in_database:
  "sequences (fst (filter_sequences_in_database w database min_length max_length
       max_ambiguous_bases blacklist require_taxonomy))
   = filter (\<lambda>s. \<not> (owner_database s = db_id database
                      \<and> violations min_length max_length max_ambiguous_bases blacklist
                           require_taxonomy s))
       (sequences w)"
  by (auto simp: filter_sequences_in_database_def Let_def dest: sequences_obj_save
        split: sum.splits)

text \<open>
  What the filter removes from the database it is given: the rows that are blacklisted
  by accession or version, too short, too long, or with too many \<^verbatim>\<open>N\<close>. A bound is
  in force when it is greater than \<open>-1\<close>. \<^verbatim>\<open>require_taxonomy\<close> has no part in it.
\<close>

lemma filter_removes_iff:
  assumes "s \<in> set (sequences w)" and "owner_database s = db_id database"
  shows "s \<notin> set (sequences (fst (filter_sequences_in_database w database min_length
             max_length max_ambiguous_bases blacklist require_taxonomy)))
     \<longleftrightarrow> (accession_number s \<in> set blacklist \<or> version s \<in> set blacklist
          \<or> (min_length > -1 \<and> int (length (dna_sequence s)) < min_length)
          \<or> (max_length > -1 \<and> int (length (dna_sequence s)) > max_length)
          \<or> (max_ambiguous_bases > -1 \<and> ambiguous (dna_sequence s) > max_ambiguous_bases))"
  using assms
  by (auto simp: sequences_filter_sequences_in_database violations_def Let_def)

lemma filter_require_taxonomy_unread:
  "filter_sequences_in_database w database min_length max_length max_ambiguous_bases
       blacklist require_taxonomy
   = filter_sequences_in_database w database min_length max_length max_ambiguous_bases
       blacklist False"
  by (simp add: filter_sequences_in_database_def violations_def)

text \<open>
  The value returned is read after the rows were deleted: whenever the call returns,
  it returns a query without rows.
\<close>

lemma filter_returns_no_rows:
  assumes "snd (filter_sequences_in_database w database min_length max_length
             max_ambiguous_bases blacklist require_taxonomy) = Inr rows"
  shows "rows = []"
proof -
  let ?v = "violations min_length max_length max_ambiguous_bases blacklist require_taxonomy"
  let ?w' = "w\<lparr>sequences :=
               filter (\<lambda>s. \<not> (owner_database s = db_id database \<and> ?v s)) (sequences w)\<rparr>"
  from assms obtain w'' where
    s: "obj_save ?w' (append_change_reason database (join newline
          (filter_change_reason min_length max_length max_ambiguous_bases blacklist))) = Inr w''"
    and r: "rows = filter ?v (sequences_of w'' database)"
    by (auto simp: filter_sequences_in_database_def Let_def split: sum.splits)
  from sequences_obj_save [OF s] have "sequences w'' = sequences ?w'" .
  with r show ?thesis
    by (auto simp: sequences_of_def filter_empty_conv)
qed

text \<open>
  C4, at a record of the unlocked \<open>db1\<close> that has none of the eight taxonomic ranks:
  with \<^verbatim>\<open>require_taxonomy\<close> set and no other criterion, the filter selects nothing
  and the record stays.
\<close>

theorem filter_keeps_record_without_taxonomy:
  "example_seq ''s3'' ''db1'' ''A1'' ''ACGT'' ''x'' \<in> set (sequences_of example_world (example_db ''db1'' 0 0 0 False))
   \<and> taxon_species (example_seq ''s3'' ''db1'' ''A1'' ''ACGT'' ''x'') = None
   \<and> snd (filter_sequences_in_database example_world (example_db ''db1'' 0 0 0 False)
            (-1) (-1) (-1) [] True) = Inr []
   \<and> sequences (fst (filter_sequences_in_database example_world (example_db ''db1'' 0 0 0 False)
            (-1) (-1) (-1) [] True)) = sequences example_world"
  by (simp add: filter_defs ex_defs sequences_of_def obj_save_def smallint_def Let_def)

text \<open>
  C5, at the filter on the locked \<open>db0\<close>, which holds A1 and A2, both of length 4:
  \<^verbatim>\<open>filter_sequences_in_database\<close> does not test \<^verbatim>\<open>database.locked\<close>. With a minimal
  length of 10 the call does not raise \<^verbatim>\<open>DatabaseLocked\<close>: it returns, the query it
  returns has no rows left to select, and the locked database holds no record
  afterwards.
\<close>

theorem filter_runs_on_locked_database:
  "locked (example_db ''db0'' 1 0 0 True)
   \<and> sequences_of example_world (example_db ''db0'' 1 0 0 True)
       = [example_seq ''s1'' ''db0'' ''A1'' ''ACGT'' ''x'',
          example_seq ''s2'' ''db0'' ''A2'' ''ACGT'' ''x'']
   \<and> snd (filter_sequences_in_database example_world (example_db ''db0'' 1 0 0 True)
            10 (-1) (-1) [] False) = Inr []
   \<and> sequences_of (fst (filter_sequences_in_database example_world
            (example_db ''db0'' 1 0 0 True) 10 (-1) (-1) [] False))
        (example_db ''db0'' 1 0 0 True) = []"
  by (simp add: filter_defs ex_defs sequences_of_def obj_save_def smallint_def Let_def)

text \<open>The guard that the filter lacks, in \<^verbatim>\<open>add_sequences_to_database\<close>.\<close>

lemma add_locked:
  "locked database \<Longrightarrow>
   add_sequences_to_database env w database desired_numbers search_term min_length max_length
     max_ambiguous_bases blacklist require_taxonomy = (w, Inl DatabaseLocked)"
  by (simp add: add_sequences_to_database_def)

section \<open>Properties of the fetch client\<close>

lemma length_many_accessions: "length many_accessions = 1501"
  by (simp add: many_accessions_def)

lemma distinct_many_accessions: "distinct many_accessions"
proof -
  have "inj_on (\<lambda>n. replicate n CHR ''A'') (set [1..<1502])"
    by (rule inj_onI) (metis length_replicate)
  then show ?thesis
    by (simp add: many_accessions_def distinct_map)
qed

text \<open>
  C7, at 1501 distinct accessions. The call fails with \<^verbatim>\<open>AccessionLimitExceeded\<close>
  and the log of requests is as before, whatever the term and the environment. The
  exception carries the maximum 1500 and, as \<^verbatim>\<open>curr_accessions\<close>, the list of the
  accessions itself, not their number.
\<close>

theorem retrieve_gb_limit_carries_list:
  "retrieve_gb env log many_accessions term raise_if_missing
     = (log, Inl (AccessionLimitExceeded (Inl many_accessions) 1500))
   \<and> length (remdups many_accessions) = 1501"
  using distinct_many_accessions
  by (simp add: retrieve_gb_def MAX_ACCESSIONS_def length_many_accessions distinct_remdups_id)

lemma set_list_set [simp]: "set (list_set env xs) = set xs"
  by (simp add: list_set_def Let_def)

lemma distinct_list_set [simp]: "distinct (list_set env xs)"
  by (simp add: list_set_def Let_def)

lemma list_set_Nil [simp]: "list_set env [] = []"
  by (auto simp: list_set_def Let_def)

declare search_batches.simps [simp del] accession_batches.simps [simp del]

lemma send_gb_request_not_conflict:
  "snd (send_gb_request env log accession_numbers raise_if_missing kwargs)
     \<noteq> Inl (AccessionsAlreadyExist c)"
  by (simp add: send_gb_request_def Let_def split: efetch_answer.splits)

lemma search_batches_not_conflict:
  "snd (search_batches env log webenv query_key count' retstart all_data)
     \<noteq> Inl (AccessionsAlreadyExist c)"
proof (induction env log webenv query_key count' retstart all_data rule: search_batches.induct)
  case (1 env log webenv query_key count' retstart all_data)
  show ?case
  proof (cases "count' > 0")
    case False
    then show ?thesis by (subst search_batches.simps) simp
  next
    case True
    let ?r = "send_gb_request env log [] False
                [(''webenv'', PyStr webenv), (''retstart'', PyInt retstart),
                 (''retmax'', PyInt (int ACCESSIONS_PER_REQUEST)), (''query_key'', PyStr query_key)]"
    obtain log' res where r: "?r = (log', res)" by (cases ?r)
    show ?thesis
    proof (cases res)
      case (Inl e)
      with send_gb_request_not_conflict [of env log "[]" False _ c] r
      have "e \<noteq> AccessionsAlreadyExist c" by (metis snd_conv)
      with True r Inl show ?thesis by (subst search_batches.simps) simp
    next
      case (Inr batch)
      with True r "1.IH" [OF True r [symmetric] Inr] show ?thesis
        by (subst search_batches.simps) simp
    qed
  qed
qed

lemma accession_batches_not_conflict:
  "snd (accession_batches env log desired_numbers raise_if_missing all_data)
     \<noteq> Inl (AccessionsAlreadyExist c)"
proof (induction env log desired_numbers raise_if_missing all_data
       rule: accession_batches.induct)
  case (1 env log desired_numbers raise_if_missing all_data)
  show ?case
  proof (cases "length desired_numbers > 0")
    case False
    then show ?thesis by (subst accession_batches.simps) simp
  next
    case True
    let ?r = "send_gb_request env log (take ACCESSIONS_PER_REQUEST desired_numbers)
                raise_if_missing []"
    obtain log' res where r: "?r = (log', res)" by (cases ?r)
    show ?thesis
    proof (cases res)
      case (Inl e)
      with send_gb_request_not_conflict [of env log _ raise_if_missing "[]" c] r
      have "e \<noteq> AccessionsAlreadyExist c" by (metis snd_conv)
      with True r Inl show ?thesis by (subst accession_batches.simps) simp
    next
      case (Inr batch)
      with True r "1.IH" [OF True r [symmetric] Inr] show ?thesis
        by (subst accession_batches.simps) simp
    qed
  qed
qed


lemma retrieve_gb_not_conflict:
  "snd (retrieve_gb env log accession_numbers term raise_if_missing)
     \<noteq> Inl (AccessionsAlreadyExist c)"
proof -
  let ?searched = "(case term of
                  None \<Rightarrow> (log, Inr [])
                | Some t \<Rightarrow>
                    (let t' = strip t in
                     if length t' > 0 then
                       (case esearch env t' of
                          None \<Rightarrow> (log @ [ESearch t'], Inl (GenBankConnectionError [] t'))
                        | Some (count', webenv, query_key) \<Rightarrow>
                            if count' > MAX_ACCESSIONS
                            then (log @ [ESearch t'],
                                  Inl (AccessionLimitExceeded (Inr count') MAX_ACCESSIONS))
                            else search_batches env (log @ [ESearch t']) webenv query_key
                                   count' 0 [])
                     else (log, Inr [])))"
  have s: "snd ?searched \<noteq> Inl (AccessionsAlreadyExist c)"
    by (simp add: Let_def search_batches_not_conflict split: option.splits prod.splits)
  obtain log1 res where r: "?searched = (log1, res)" by (cases ?searched)
  with s have res: "res \<noteq> Inl (AccessionsAlreadyExist c)" by simp
  have "snd (case (log1, res) of
              (log1, Inl e) \<Rightarrow> (log1, Inl e)
            | (log1, Inr all_data) \<Rightarrow>
                accession_batches env log1 (list_set env accession_numbers) raise_if_missing
                  all_data)
        \<noteq> Inl (AccessionsAlreadyExist c)"
    using res by (cases res) (simp_all add: accession_batches_not_conflict)
  then show ?thesis
    unfolding retrieve_gb_def Let_def r [unfolded Let_def] by simp
qed

section \<open>Properties of adding records\<close>

text \<open>
  The loop over the fetched records, taken by itself: the rows it creates belong to
  the database, have accessions that were not present, and no two of them share an
  accession. A fetched record whose accession is present is passed over.
\<close>

lemma accession_number_new_sequence [simp]:
  "accession_number (new_sequence database key data) = accession_number data"
  by (simp add: new_sequence_def)

lemma owner_database_new_sequence [simp]:
  "owner_database (new_sequence database key data) = db_id database"
  by (simp add: new_sequence_def)

lemma add_loop_creates_new_accessions:
  "fold (add_step env database mn mx amb bl rt) genbank_data (to_create, existing, k)
     = (to_create', existing', k') \<Longrightarrow>
   \<exists>new. to_create' = to_create @ new
     \<and> (\<forall>s \<in> set new. accession_number s \<notin> existing \<and> owner_database s = db_id database)
     \<and> distinct (map accession_number new)"
proof (induction genbank_data arbitrary: to_create existing k)
  case Nil
  then show ?case by simp
next
  case (Cons data rest)
  show ?case
  proof (cases "skips mn mx amb bl rt existing data")
    case True
    then have "add_step env database mn mx amb bl rt data (to_create, existing, k)
        = (to_create, existing, k)"
      by (simp add: add_step_def)
    with Cons.prems have "fold (add_step env database mn mx amb bl rt) rest (to_create, existing, k)
        = (to_create', existing', k')"
      by simp
    from Cons.IH [OF this] show ?thesis .
  next
    case False
    then have fresh: "accession_number data \<notin> existing"
      by (simp add: skips_def Let_def)
    from False have "add_step env database mn mx amb bl rt data (to_create, existing, k)
        = (to_create @ [new_sequence database (uuid4 env k) data],
           insert (accession_number data) existing, Suc k)"
      by (simp add: add_step_def)
    with Cons.prems
    have "fold (add_step env database mn mx amb bl rt) rest
            (to_create @ [new_sequence database (uuid4 env k) data],
             insert (accession_number data) existing, Suc k)
          = (to_create', existing', k')"
      by simp
    from Cons.IH [OF this] obtain new where
      n: "to_create' = (to_create @ [new_sequence database (uuid4 env k) data]) @ new"
      and f: "\<forall>s \<in> set new. accession_number s \<notin> insert (accession_number data) existing
                \<and> owner_database s = db_id database"
      and d: "distinct (map accession_number new)"
      by blast
    let ?new = "new_sequence database (uuid4 env k) data # new"
    have "to_create' = to_create @ ?new" using n by simp
    moreover have "\<forall>s \<in> set ?new. accession_number s \<notin> existing
                     \<and> owner_database s = db_id database"
      using f fresh by auto
    moreover have "distinct (map accession_number ?new)"
      using f d by auto
    ultimately show ?thesis by blast
  qed
qed


text \<open>
  \<^verbatim>\<open>AccessionsAlreadyExist\<close> is raised only for the accessions requested by name that
  the database holds already, and then nothing has happened: the state, with its log
  of requests, is as before. An addition by search term alone never raises it.
\<close>

lemma add_conflict_check_explicit_only:
  "(let R = add_sequences_to_database env w database desired_numbers search_term min_length
              max_length max_ambiguous_bases blacklist require_taxonomy;
        existing = set (map accession_number (sequences_of w database))
    in (\<forall>c. snd R = Inl (AccessionsAlreadyExist c) \<longrightarrow>
              c = filter (\<lambda>e. e \<in> existing) (list_set env desired_numbers)
              \<and> c \<noteq> [] \<and> fst R = w)
       \<and> (desired_numbers = [] \<longrightarrow> (\<forall>c. snd R \<noteq> Inl (AccessionsAlreadyExist c))))"
proof -
  define existing where "existing = set (map accession_number (sequences_of w database))"
  define R where "R = add_sequences_to_database env w database desired_numbers search_term
      min_length max_length max_ambiguous_bases blacklist require_taxonomy"
  define conflicts where "conflicts = filter (\<lambda>e. e \<in> existing) (list_set env desired_numbers)"
  obtain log res where
    g: "retrieve_gb env (requests w) (list_set env desired_numbers) search_term False
          = (log, res)"
    by (cases "retrieve_gb env (requests w) (list_set env desired_numbers) search_term False")
  have res: "res \<noteq> Inl (AccessionsAlreadyExist c)" for c
    using retrieve_gb_not_conflict [of env "requests w" "list_set env desired_numbers"
            search_term False c] g by simp
  have main: "\<forall>c. snd R = Inl (AccessionsAlreadyExist c) \<longrightarrow> c = conflicts \<and> c \<noteq> [] \<and> fst R = w"
  proof (cases "locked database \<or> (length desired_numbers = 0 \<and> search_term = None)")
    case True
    then have "R = (w, Inl DatabaseLocked) \<or> R = (w, Inr [])"
      by (auto simp: R_def add_sequences_to_database_def)
    then show ?thesis by auto
  next
    case False
    then have u: "\<not> locked database" "\<not> (length desired_numbers = 0 \<and> search_term = None)"
      by auto
    show ?thesis
    proof (cases "length conflicts > 0")
      case True
      then have "R = (w, Inl (AccessionsAlreadyExist conflicts))"
        unfolding R_def add_sequences_to_database_def
        by (simp only: if_not_P [OF u(1)] if_not_P [OF u(2)])
           (simp add: Let_def conflicts_def existing_def)
      with True show ?thesis by auto
    next
      case noconf: False
      show ?thesis
      proof (cases res)
        case (Inl e)
        with noconf g have "R = (w\<lparr>requests := log\<rparr>, Inl e)"
          unfolding R_def add_sequences_to_database_def
          by (simp only: if_not_P [OF u(1)] if_not_P [OF u(2)])
             (simp add: Let_def conflicts_def existing_def)
        with res Inl show ?thesis by auto
      next
        case (Inr fetched)
        with noconf g have "R = (w\<lparr>requests := log\<rparr>, Inl TypeError)"
          unfolding R_def add_sequences_to_database_def
          by (simp only: if_not_P [OF u(1)] if_not_P [OF u(2)])
             (simp add: Let_def conflicts_def existing_def save_taxonomy_def)
        then show ?thesis by auto
      qed
    qed
  qed
  have "desired_numbers = [] \<longrightarrow> (\<forall>c. snd R \<noteq> Inl (AccessionsAlreadyExist c))"
    using main by (auto simp: conflicts_def)
  with main show ?thesis
    unfolding Let_def R_def [symmetric] existing_def [symmetric] conflicts_def [symmetric]
    by blast
qed

text \<open>
  Past the test for conflicts every call ends in an exception: the one of the fetch,
  or the \<^verbatim>\<open>TypeError\<close> of the call of \<^verbatim>\<open>save_taxonomy\<close>. No row is ever inserted.
\<close>

lemma add_never_inserts:
  "sequences (fst (add_sequences_to_database env w database desired_numbers search_term
      min_length max_length max_ambiguous_bases blacklist require_taxonomy)) = sequences w"
  by (auto simp: add_sequences_to_database_def save_taxonomy_def Let_def
        split: prod.splits sum.splits)

lemma add_fails_past_conflict_check:
  assumes "\<not> locked database" and "\<not> (length desired_numbers = 0 \<and> search_term = None)"
  shows "\<exists>e. snd (add_sequences_to_database env w database desired_numbers search_term
      min_length max_length max_ambiguous_bases blacklist require_taxonomy) = Inl e"
  using assms
  by (auto simp: add_sequences_to_database_def save_taxonomy_def Let_def
        split: prod.splits sum.splits)

lemmas add_defs = add_sequences_to_database_def retrieve_gb_def send_gb_request_def
  save_taxonomy_def list_set_def MAX_ACCESSIONS_def ACCESSIONS_PER_REQUEST_def strip_def
  isspace_def search_env_def example_data_def search_batches.simps accession_batches.simps

text \<open>
  C10, at an addition by search term to the unlocked \<open>db1\<close>, which holds A1 and A3.
  The registry answers with A1 and the new A7. The records are fetched, in one search
  and one request, and the call of \<^verbatim>\<open>save_taxonomy\<close> that follows raises
  \<^verbatim>\<open>TypeError\<close>: the operation fails, the loop that passes over A1 is not reached and
  A7 is not inserted.
\<close>

theorem add_by_search_term_fails:
  "\<not> locked (example_db ''db1'' 0 0 0 False)
   \<and> map accession_number (sequences_of example_world (example_db ''db1'' 0 0 0 False))
       = [''A1'', ''A3'']
   \<and> snd (add_sequences_to_database search_env example_world (example_db ''db1'' 0 0 0 False)
            [] (Some ''danio'') (-1) (-1) (-1) [] False) = Inl TypeError
   \<and> requests (fst (add_sequences_to_database search_env example_world
            (example_db ''db1'' 0 0 0 False) [] (Some ''danio'') (-1) (-1) (-1) [] False))
       = [ESearch ''danio'',
          EFetch [(''webenv'', PyStr ''webenv''), (''retstart'', PyInt 0),
                  (''retmax'', PyInt 300), (''query_key'', PyStr ''1'')]]
   \<and> sequences (fst (add_sequences_to_database search_env example_world
            (example_db ''db1'' 0 0 0 False) [] (Some ''danio'') (-1) (-1) (-1) [] False))
       = sequences example_world"
  by (simp add: add_defs sequences_of_def ex_defs Let_def)

section \<open>Properties of parsing\<close>

lemma startswith_length: "startswith s p \<Longrightarrow> length p \<le> length s"
  unfolding startswith_def by (drule arg_cong [where f = length]) simp

lemma contains_length: "contains s p \<Longrightarrow> length p \<le> length s"
  by (induction s) (auto dest: startswith_length)

lemma taxon_xref_other:
  "taxon_xref vals d = Inr d' \<Longrightarrow> k \<noteq> ''taxid'' \<Longrightarrow> d' k = d k"
proof (induction vals)
  case Nil
  then show ?case by simp
next
  case (Cons v vals)
  then show ?case
    by (auto split: list.splits if_splits)
qed

lemma extract_qualifier_other:
  "extract_qualifier quals n d = Inr d' \<Longrightarrow> k \<noteq> n \<Longrightarrow> k \<noteq> ''taxid'' \<Longrightarrow> d' k = d k"
  by (auto simp: extract_qualifier_def taxon_xref_other split: option.splits if_splits list.splits)

lemma extract_qualifiers_other:
  "extract_qualifiers quals ns d = Inr d' \<Longrightarrow> k \<notin> set ns \<Longrightarrow> k \<noteq> ''taxid'' \<Longrightarrow> d' k = d k"
proof (induction ns arbitrary: d)
  case Nil
  then show ?case by simp
next
  case (Cons n ns)
  from Cons.prems(1) obtain d1 where
    s: "extract_qualifier quals n d = Inr d1" and r: "extract_qualifiers quals ns d1 = Inr d'"
    by (auto split: sum.splits)
  from Cons.prems have "k \<noteq> n" and "k \<notin> set ns" by auto
  with Cons.IH [OF r] extract_qualifier_other [OF s] Cons.prems(3) show ?case by simp
qed

lemma extract_qualifiers_append:
  "extract_qualifiers quals (ns @ ms) d =
     (case extract_qualifiers quals ns d of Inl e \<Rightarrow> Inl e
      | Inr d' \<Rightarrow> extract_qualifiers quals ms d')"
  by (induction ns arbitrary: d) (auto split: sum.splits)

lemma extract_qualifiers_type_material:
  assumes "extract_qualifiers quals qualifiers_to_extract d = Inr d'"
      and "quals ''type_material'' = None"
  shows "d' ''type_material'' = Some ''''"
proof -
  have split: "qualifiers_to_extract =
      [''organism'', ''organelle'', ''isolate'', ''country'', ''specimen_voucher'']
      @ ''type_material'' # [''lat_lon'', ''db_xref'', ''identified_by'', ''collected_by'',
          ''collection_date'']"
    by (simp add: qualifiers_to_extract_def)
  from assms(1) obtain d1 where
    r: "extract_qualifiers quals (''type_material'' # [''lat_lon'', ''db_xref'', ''identified_by'',
          ''collected_by'', ''collection_date'']) d1 = Inr d'"
    unfolding split extract_qualifiers_append by (auto split: sum.splits)
  then obtain d2 where
    t: "extract_qualifier quals ''type_material'' d1 = Inr d2"
    and l: "extract_qualifiers quals [''lat_lon'', ''db_xref'', ''identified_by'',
          ''collected_by'', ''collection_date''] d2 = Inr d'"
    by (auto split: sum.splits)
  from t assms(2) have "d2 ''type_material'' = Some ''''"
    by (auto simp: extract_qualifier_def)
  moreover have "d' ''type_material'' = d2 ''type_material''"
    by (rule extract_qualifiers_other [OF l]) simp_all
  ultimately show ?thesis by simp
qed

text \<open>
  C9, as the code has it. When the source feature has no \<^verbatim>\<open>type_material\<close>
  qualifier and the record is parsed, the type material is: empty when there is no
  note; otherwise the notes, joined by newlines, without their first six characters
  when they contain \<open>paratype\<close> or \<open>holotype\<close> and start with \<open>type: \<close> (both
  tests on the lower-cased notes), and the notes unchanged in every other case, also
  when they contain neither keyword.
\<close>

theorem note_becomes_type_material:
  assumes "filter (\<lambda>feature. feature_type feature = ''source'') features = source_feature # others"
      and "qualifiers source_feature ''type_material'' = None"
      and "parse_source features current_data = Inr d"
  shows "d ''type_material'' =
     Some (case qualifiers source_feature ''note'' of
             None \<Rightarrow> ''''
           | Some lines \<Rightarrow>
               (let notes = join newline lines in
                if (contains (lower notes) ''paratype'' \<or> contains (lower notes) ''holotype'')
                   \<and> startswith (lower notes) ''type: ''
                then drop 6 notes else notes))"
proof -
  from assms(1,3) obtain d1 where
    e: "extract_qualifiers (qualifiers source_feature) qualifiers_to_extract current_data = Inr d1"
    and n: "d = note_type_material (qualifiers source_feature) d1"
    by (auto simp: parse_source_def split: sum.splits)
  from extract_qualifiers_type_material [OF e assms(2)]
  have t: "d1 ''type_material'' = Some ''''" .
  show ?thesis
  proof (cases "qualifiers source_feature ''note''")
    case None
    with n t show ?thesis by (simp add: note_type_material_def)
  next
    case (Some lines)
    have len: "contains (lower (join newline lines)) ''paratype''
               \<or> contains (lower (join newline lines)) ''holotype''
               \<Longrightarrow> length (lower (join newline lines)) > 6"
      using contains_length [of "lower (join newline lines)" "''paratype''"]
            contains_length [of "lower (join newline lines)" "''holotype''"]
      by auto
    from n t Some len show ?thesis
      by (auto simp: note_type_material_def Let_def)
  qed
qed

theorem note_becomes_type_material_witness:
  "\<exists>d. parse_source [source_with_note ''Type: holotype of Danio x''] Map.empty = Inr d
       \<and> d ''type_material'' = Some ''holotype of Danio x''"
proof -
  let ?f = "source_with_note ''Type: holotype of Danio x''"
  have s: "filter (\<lambda>feature. feature_type feature = ''source'') [?f] = ?f # []"
    by (simp add: source_with_note_def)
  have q: "qualifiers ?f ''type_material'' = None"
    by (simp add: source_with_note_def)
  have "case parse_source [?f] Map.empty of Inl e \<Rightarrow> False | Inr d \<Rightarrow> True"
    by code_simp
  then obtain d where p: "parse_source [?f] Map.empty = Inr d"
    by (cases "parse_source [?f] Map.empty") auto
  have v: "(case qualifiers ?f ''note'' of
             None \<Rightarrow> ''''
           | Some lines \<Rightarrow>
               (let notes = join newline lines in
                if (contains (lower notes) ''paratype'' \<or> contains (lower notes) ''holotype'')
                   \<and> startswith (lower notes) ''type: ''
                then drop 6 notes else notes)) = ''holotype of Danio x''"
    by code_simp
  from note_becomes_type_material [OF s q p] v p show ?thesis by simp
qed

theorem note_without_keyword_counterexample:
  "\<not> contains (lower ''collected at night'') ''paratype''
   \<and> \<not> contains (lower ''collected at night'') ''holotype''
   \<and> (case parse_source [source_with_note ''collected at night''] Map.empty of
         Inl e \<Rightarrow> None
       | Inr d \<Rightarrow> d ''type_material'') = Some ''collected at night''"
  by code_simp

end
